theory Spec2Isabelle
  imports Complex_Main "HOL-Library.Sublist"
begin

section \<open>Data model of the SIF-400 digital twin\<close>

text \<open>
  The in-browser simulator (component \<open>SIF400DigitalTwin\<close>, the variant that keeps
  \<open>stationData\<close> and \<open>alerts\<close> as React state and advances them in a
  \<open>setInterval\<close> callback) is embedded here. JavaScript numbers are modelled as
  reals: \<open>Math.max\<close>, \<open>Math.min\<close> and the comparisons are exact on doubles, only
  the rounding of the two additions of a tick is idealised.

  The status strings \<open>'normal'\<close> and \<open>'warning'\<close> and the alert types
  \<open>'voltage'\<close> and \<open>'current'\<close> are the only values the code ever writes, so they
  are datatypes.
\<close>

datatype status = Normal | Warning

datatype alert_type = Voltage | Current

text \<open>One element of a station's \<open>trend\<close> array.\<close>

record trend_point =
  tp_voltage :: real
  tp_current :: real
  tp_timestamp :: string

text \<open>One value of the \<open>stationData\<close> object.\<close>

record station =
  voltage :: real
  current :: real
  status :: status
  trend :: "trend_point list"

text \<open>One element of the \<open>alerts\<close> array.\<close>

record alert =
  alert_id :: int
  alert_station :: string
  alert_type :: alert_type
  message :: string
  timestamp :: string

text \<open>
  The two pieces of React state the simulator owns. \<open>stationData\<close> is an object whose
  keys are station codes; it is an association list in key order, the order in which
  \<open>Object.keys\<close> enumerates it.
\<close>

record twin =
  stationData :: "(string \<times> station) list"
  alerts :: "alert list"

text \<open>
  What one station's update reads from its environment during a tick, in call order:
  two results of \<open>Math.random()\<close>, the \<open>toLocaleTimeString()\<close> of the trend point,
  and, on the alert path, \<open>Date.now()\<close> and a second \<open>toLocaleTimeString()\<close>.
\<close>

record env =
  random_v :: real
  random_c :: real
  trend_time :: string
  date_now :: int
  alert_time :: string

text \<open>
  The properties of a station object as JavaScript sees them: a read of a property the
  object literal does not have yields \<open>undefined\<close>, here \<open>None\<close>.
\<close>

datatype js_value = JNum real | JStatus status | JTrend "trend_point list"

definition station_prop :: "station \<Rightarrow> string \<Rightarrow> js_value option" where
  "station_prop st p =
     (if p = ''voltage'' then Some (JNum (voltage st))
      else if p = ''current'' then Some (JNum (current st))
      else if p = ''status'' then Some (JStatus (status st))
      else if p = ''trend'' then Some (JTrend (trend st))
      else None)"

section \<open>Initial state\<close>

definition initial_stationData :: "(string \<times> station) list" where
  "initial_stationData =
     [(''SIF-401'', \<lparr>voltage = 220, current = 15.2, status = Normal, trend = []\<rparr>),
      (''SIF-402'', \<lparr>voltage = 218, current = 14.8, status = Normal, trend = []\<rparr>),
      (''SIF-405'', \<lparr>voltage = 221, current = 15.5, status = Normal, trend = []\<rparr>),
      (''SIF-407'', \<lparr>voltage = 219, current = 15.1, status = Normal, trend = []\<rparr>)]"

definition initial :: twin where
  "initial = \<lparr>stationData = initial_stationData, alerts = []\<rparr>"

section \<open>Number formatting\<close>

definition digit :: "nat \<Rightarrow> char" where
  "digit n = ''0123456789'' ! n"

fun show_nat :: "nat \<Rightarrow> string" where
  "show_nat n = (if n < 10 then [digit n] else show_nat (n div 10) @ [digit (n mod 10)])"

declare show_nat.simps [simp del]

text \<open>
  \<open>x.toFixed(1)\<close>: the sign, then the integer \<open>n\<close> nearest to \<open>10 * |x|\<close> (the larger
  one on a tie) printed with one decimal. The exponent form that JavaScript switches to
  from \<open>10^21\<close> on is outside the simulator's clamped ranges and is not modelled.
\<close>

definition toFixed1 :: "real \<Rightarrow> string" where
  "toFixed1 x =
     (let n = nat \<lfloor>\<bar>x\<bar> * 10 + 1 / 2\<rfloor>
      in (if x < 0 then ''-'' else []) @ show_nat (n div 10) @ ''.'' @ show_nat (n mod 10))"

section \<open>The simulation tick\<close>

text \<open>\<open>xs.slice(-n)\<close>: the last \<open>n\<close> elements, all of them when there are fewer.\<close>

definition slice_last :: "nat \<Rightarrow> 'a list \<Rightarrow> 'a list" where
  "slice_last n xs = drop (length xs - n) xs"

text \<open>\<open>alerts.find(a => a.station === station && a.type === ty)\<close>\<close>

definition alertExists :: "alert list \<Rightarrow> string \<Rightarrow> alert_type \<Rightarrow> alert option" where
  "alertExists als stn ty = find (\<lambda>a. alert_station a = stn \<and> alert_type a = ty) als"

text \<open>
  The body of the \<open>forEach\<close> over the station keys. \<open>als\<close> is the \<open>alerts\<close> array
  the interval callback closed over; the effect is re-established whenever \<open>alerts\<close>
  changes, so at a tick it is the current array. The second component is the list of
  alerts this station queues through \<open>setAlerts(prev => [...prev, a])\<close>.
\<close>

definition update_station :: "alert list \<Rightarrow> env \<Rightarrow> string \<Rightarrow> station \<Rightarrow> station \<times> alert list" where
  "update_station als e stn st =
     (let voltageVariation = (random_v e - 0.5) * 2;
          currentVariation = (random_c e - 0.5) * 0.5;
          v = max 215 (min 225 (voltage st + voltageVariation));
          c = max 14 (min 16 (current st + currentVariation));
          newTrend = slice_last 20
            (trend st @ [\<lparr>tp_voltage = v, tp_current = c, tp_timestamp = trend_time e\<rparr>]);
          updated = st\<lparr>voltage := v, current := c, trend := newTrend\<rparr>
      in if v < 216 \<or> v > 224 then
           (updated\<lparr>status := Warning\<rparr>,
            if alertExists als stn Voltage = None then
              [\<lparr>alert_id = date_now e, alert_station = stn, alert_type = Voltage,
                message = ''Voltage anomaly detected: '' @ toFixed1 v @ ''V'',
                timestamp = alert_time e\<rparr>]
            else [])
         else if c < 14.5 \<or> c > 15.8 then
           (updated\<lparr>status := Warning\<rparr>,
            if alertExists als stn Current = None then
              [\<lparr>alert_id = date_now e, alert_station = stn, alert_type = Current,
                message = ''Current anomaly detected: '' @ toFixed1 c @ ''A'',
                timestamp = alert_time e\<rparr>]
            else [])
         else (updated\<lparr>status := Normal\<rparr>, []))"

text \<open>
  One firing of the interval: every station is updated in key order, and the queued
  \<open>setAlerts\<close> updaters append their alerts in that order.
\<close>

definition tick :: "(string \<Rightarrow> env) \<Rightarrow> twin \<Rightarrow> twin" where
  "tick e s =
     \<lparr>stationData = map (\<lambda>(k, st). (k, fst (update_station (alerts s) (e k) k st))) (stationData s),
      alerts = alerts s @ concat (map (\<lambda>(k, st). snd (update_station (alerts s) (e k) k st)) (stationData s))\<rparr>"

text \<open>Any number of ticks, each with its own environment.\<close>

fun run :: "(string \<Rightarrow> env) list \<Rightarrow> twin \<Rightarrow> twin" where
  "run [] s = s"
| "run (e # es) s = run es (tick e s)"

text \<open>
  Names for the values a station's update computes, so that lemmas can mention them:
  the clamped voltage and current, and the trend point made from them.
\<close>

definition next_voltage :: "env \<Rightarrow> station \<Rightarrow> real" where
  "next_voltage e st = max 215 (min 225 (voltage st + (random_v e - 0.5) * 2))"

definition next_current :: "env \<Rightarrow> station \<Rightarrow> real" where
  "next_current e st = max 14 (min 16 (current st + (random_c e - 0.5) * 0.5))"

definition next_point :: "env \<Rightarrow> station \<Rightarrow> trend_point" where
  "next_point e st =
     \<lparr>tp_voltage = next_voltage e st, tp_current = next_current e st, tp_timestamp = trend_time e\<rparr>"

text \<open>The de-duplication key of an alert: the pair the \<open>find\<close> predicate compares.\<close>

definition alert_key :: "alert \<Rightarrow> string \<times> alert_type" where
  "alert_key a = (alert_station a, alert_type a)"

text \<open>
  The trend points published for station \<open>k\<close> along a run, oldest first: one per tick,
  made of the voltage and current the station has after that tick and of the time the
  tick read for it. This is the unbounded history the trend buffer is a window of.
\<close>

fun published :: "string \<Rightarrow> (string \<Rightarrow> env) list \<Rightarrow> twin \<Rightarrow> trend_point list" where
  "published k [] s = []"
| "published k (e # es) s =
     (case map_of (stationData (tick e s)) k of
        None \<Rightarrow> []
      | Some st \<Rightarrow> [\<lparr>tp_voltage = voltage st, tp_current = current st, tp_timestamp = trend_time (e k)\<rparr>])
     @ published k es (tick e s)"

text \<open>
  \<open>stationData[k]\<close> for a key \<open>k\<close> the object has (the examples below only read
  keys of the fleet).
\<close>

definition reading_of :: "twin \<Rightarrow> string \<Rightarrow> station" where
  "reading_of s k = the (map_of (stationData s) k)"

section \<open>Thresholds\<close>

text \<open>
  The threshold state of the dashboard component and its \<open>useState\<close> default. The
  simulator above does not read it: its bounds are the literals in \<open>update_station\<close>.
\<close>

record threshold_config =
  voltage_min :: real
  voltage_max :: real
  current_min :: real
  current_max :: real

definition default_thresholds :: threshold_config where
  "default_thresholds =
     \<lparr>voltage_min = 216.0, voltage_max = 224.0, current_min = 14.5, current_max = 15.8\<rparr>"

text \<open>
  The classification as the specification words it, \<open>classify(reading, thresholds)\<close>,
  for comparison with the status \<open>update_station\<close> assigns.
\<close>

definition classify_spec :: "real \<Rightarrow> real \<Rightarrow> threshold_config \<Rightarrow> status" where
  "classify_spec v c th =
     (if v < voltage_min th \<or> v > voltage_max th then Warning
      else if c < current_min th \<or> c > current_max th then Warning
      else Normal)"

section \<open>The chat handler of the simulator component\<close>

datatype role = User | Assistant

record chat_message =
  role :: role
  content :: string

record chat_state =
  chatMessages :: "chat_message list"
  inputMessage :: string
  isLoading :: bool

definition nl :: string where
  "nl = [CHR 0x0A]"

text \<open>
  Strings are their UTF-8 encoding. The white space \<open>String.prototype.trim\<close> removes is
  ECMAScript's \<open>WhiteSpace\<close> and \<open>LineTerminator\<close>: TAB, LF, VT, FF, CR, SPACE,
  U+00A0, U+1680, U+2000 to U+200A, U+2028, U+2029, U+202F, U+205F, U+3000 and U+FEFF,
  each listed here as the bytes that encode it.
\<close>

definition white_space :: "string list" where
  "white_space =
     [[CHR 0x09], [CHR 0x0A], [CHR 0x0B], [CHR 0x0C], [CHR 0x0D], [CHR 0x20],
      [CHR 0xC2, CHR 0xA0],
      [CHR 0xE1, CHR 0x9A, CHR 0x80],
      [CHR 0xE2, CHR 0x80, CHR 0x80], [CHR 0xE2, CHR 0x80, CHR 0x81],
      [CHR 0xE2, CHR 0x80, CHR 0x82], [CHR 0xE2, CHR 0x80, CHR 0x83],
      [CHR 0xE2, CHR 0x80, CHR 0x84], [CHR 0xE2, CHR 0x80, CHR 0x85],
      [CHR 0xE2, CHR 0x80, CHR 0x86], [CHR 0xE2, CHR 0x80, CHR 0x87],
      [CHR 0xE2, CHR 0x80, CHR 0x88], [CHR 0xE2, CHR 0x80, CHR 0x89],
      [CHR 0xE2, CHR 0x80, CHR 0x8A],
      [CHR 0xE2, CHR 0x80, CHR 0xA8], [CHR 0xE2, CHR 0x80, CHR 0xA9],
      [CHR 0xE2, CHR 0x80, CHR 0xAF],
      [CHR 0xE2, CHR 0x81, CHR 0x9F],
      [CHR 0xE3, CHR 0x80, CHR 0x80],
      [CHR 0xEF, CHR 0xBB, CHR 0xBF]]"

text \<open>
  \<open>strip_leading ws s\<close> removes from the front of \<open>s\<close> every character whose encoding is
  in \<open>ws\<close>, until the string starts with none of them.
\<close>

function strip_leading :: "string list \<Rightarrow> string \<Rightarrow> string" where
  "strip_leading ws s =
     (case find (\<lambda>w. w \<noteq> [] \<and> prefix w s) ws of
        None \<Rightarrow> s
      | Some w \<Rightarrow> strip_leading ws (drop (length w) s))"
  by pat_completeness auto
termination
  by (relation "measure (\<lambda>(ws, s). length s)") (auto simp: find_Some_iff prefix_def)

declare strip_leading.simps [simp del]

text \<open>
  \<open>s.trim()\<close>: white space is removed from the front and, read backwards, from the end.
\<close>

definition trim :: "string \<Rightarrow> string" where
  "trim s = rev (strip_leading (map rev white_space) (rev (strip_leading white_space s)))"

text \<open>\<open>parts.join(sep)\<close>\<close>

fun join :: "string \<Rightarrow> string list \<Rightarrow> string" where
  "join sep [] = []"
| "join sep [x] = x"
| "join sep (x # y # ys) = x @ sep @ join sep (y # ys)"

fun status_str :: "status \<Rightarrow> string" where
  "status_str Normal = ''normal''"
| "status_str Warning = ''warning''"

definition stationContext :: "(string \<times> station) list \<Rightarrow> string" where
  "stationContext sd =
     join nl (map (\<lambda>(stn, data).
        stn @ '': Voltage='' @ toFixed1 (voltage data) @ ''V, Current='' @ toFixed1 (current data)
          @ ''A, Status='' @ status_str (status data)) sd)"

definition prompt :: "(string \<times> station) list \<Rightarrow> alert list \<Rightarrow> string \<Rightarrow> string" where
  "prompt sd als userMessage =
     ''You are a helpful assistant for the SIF-400 Digital Twin monitoring system.'' @ nl
     @ ''      Current station readings:'' @ nl
     @ ''      '' @ stationContext sd @ nl
     @ nl
     @ ''      Active alerts: ''
     @ (if length als > 0 then join '', '' (map message als) else ''None'') @ nl
     @ nl
     @ ''      User question: '' @ userMessage @ nl
     @ nl
     @ ''      Please provide a concise, helpful response about the voltage and current status of the stations.''"

definition apology :: string where
  "apology = ''I apologize, but I encountered an error processing your request. Please try again.''"

text \<open>
  \<open>handleChatSubmit\<close>, from the submit event to the end of its \<open>finally\<close> block.
  \<open>claude_complete\<close> stands for \<open>window.claude.complete\<close>, the language-model completion
  service of the hosting page: it is not part of the repository, so it is a parameter;
  \<open>None\<close> is a rejected promise, which the \<open>catch\<close> block turns into the apology.
\<close>

definition handleChatSubmit ::
  "(string \<Rightarrow> string option) \<Rightarrow> (string \<times> station) list \<Rightarrow> alert list \<Rightarrow> chat_state \<Rightarrow> chat_state" where
  "handleChatSubmit claude_complete sd als ui =
     (if trim (inputMessage ui) = [] \<or> isLoading ui then ui
      else
        let userMessage = inputMessage ui;
            asked = chatMessages ui @ [\<lparr>role = User, content = userMessage\<rparr>]
        in case claude_complete (prompt sd als userMessage) of
             Some response \<Rightarrow>
               \<lparr>chatMessages = asked @ [\<lparr>role = Assistant, content = response\<rparr>],
                inputMessage = [], isLoading = False\<rparr>
           | None \<Rightarrow>
               \<lparr>chatMessages = asked @ [\<lparr>role = Assistant, content = apology\<rparr>],
                inputMessage = [], isLoading = False\<rparr>)"

section \<open>The threshold update of the dashboard component\<close>

text \<open>
  The state of the dashboard component that \<open>updateThresholds\<close> reads or writes, on
  top of the chat state.
\<close>

record dashboard = chat_state +
  thresholds :: threshold_config
  tempThresholds :: threshold_config
  showThresholdConfig :: bool

text \<open>
  What \<open>fetch\<close> gives back: a response with \<open>response.ok\<close> and its JSON body, a
  response that is not ok with the \<open>error\<close> field of its body, or a thrown exception.
\<close>

datatype 'a fetched = Ok 'a | NotOk string | Thrown

definition check_mark :: string where
  "check_mark = [CHR 0xE2, CHR 0x9C, CHR 0x85]"

definition cross_mark :: string where
  "cross_mark = [CHR 0xE2, CHR 0x9D, CHR 0x8C]"

definition bullet :: string where
  "bullet = [CHR 0xE2, CHR 0x80, CHR 0xA2]"

text \<open>
  \<open>updateThresholds\<close>. \<open>put\<close> is the \<open>PUT /api/thresholds\<close> request with the
  body it is given; \<open>num\<close> is JavaScript's conversion of a number to a string in a
  template literal.
\<close>

definition updateThresholds ::
  "(threshold_config \<Rightarrow> threshold_config fetched) \<Rightarrow> (real \<Rightarrow> string) \<Rightarrow> dashboard \<Rightarrow> dashboard" where
  "updateThresholds put num ui =
     (case put (tempThresholds ui) of
        Ok th \<Rightarrow>
          ui\<lparr>thresholds := th, showThresholdConfig := False,
             chatMessages := chatMessages ui @
               [\<lparr>role = Assistant,
                 content = check_mark @ '' Threshold configuration updated successfully!'' @ nl @ nl
                   @ ''New thresholds:'' @ nl
                   @ bullet @ '' Voltage: '' @ num (voltage_min th) @ ''V - '' @ num (voltage_max th) @ ''V'' @ nl
                   @ bullet @ '' Current: '' @ num (current_min th) @ ''A - '' @ num (current_max th) @ ''A''\<rparr>]\<rparr>
      | NotOk err \<Rightarrow>
          ui\<lparr>chatMessages := chatMessages ui @
               [\<lparr>role = Assistant, content = cross_mark @ '' Error updating thresholds: '' @ err\<rparr>]\<rparr>
      | Thrown \<Rightarrow>
          ui\<lparr>chatMessages := chatMessages ui @
               [\<lparr>role = Assistant,
                 content = cross_mark @ '' Failed to update thresholds. Please check your connection.''\<rparr>]\<rparr>)"

text \<open>
  Modelled from the spec: the backend handler of \<open>PUT thresholds\<close> (the Flask
  application \<open>app.py\<close> is not among the sources). The specification says:
  "PUT rejects (error, no mutation) if \<open>min >= max\<close> for either pair", and of the
  error "rejected synchronously, state unchanged, caller gets a descriptive message".
  The first component is the process-wide configuration after the request; the text of
  the message, which the specification leaves open, is the parameter \<open>msg\<close>.
\<close>

definition put_thresholds ::
  "string \<Rightarrow> threshold_config \<Rightarrow> threshold_config \<Rightarrow> threshold_config \<times> threshold_config fetched" where
  "put_thresholds msg cfg new =
     (if voltage_min new \<ge> voltage_max new \<or> current_min new \<ge> current_max new
      then (cfg, NotOk msg)
      else (new, Ok new))"

text \<open>
  One click on "Apply Thresholds" against that backend: the request is answered from
  the backend's configuration \<open>cfg\<close>, and the dashboard handles the answer.
\<close>

definition apply_thresholds ::
  "string \<Rightarrow> (real \<Rightarrow> string) \<Rightarrow> threshold_config \<times> dashboard \<Rightarrow> threshold_config \<times> dashboard" where
  "apply_thresholds msg num sys =
     (let cfg = fst sys; ui = snd sys
      in (fst (put_thresholds msg cfg (tempThresholds ui)),
          updateThresholds (\<lambda>body. snd (put_thresholds msg cfg body)) num ui))"

section \<open>Concrete inputs\<close>

text \<open>
  Environments used in the examples below. All of them read the same clock; they differ
  in what \<open>Math.random()\<close> returns: \<open>steady\<close> leaves every reading where it is,
  \<open>rising\<close> and \<open>falling\<close> move every voltage by \<open>0.9\<close>, and \<open>currents_apart\<close> moves the
  current of SIF-402 down and all other currents up by \<open>0.2\<close>.
\<close>

definition at_clock :: "real \<Rightarrow> real \<Rightarrow> env" where
  "at_clock rv rc =
     \<lparr>random_v = rv, random_c = rc, trend_time = ''10:00:00 AM'',
      date_now = 1700000000000, alert_time = ''10:00:00 AM''\<rparr>"

definition steady :: "string \<Rightarrow> env" where
  "steady k = at_clock 0.5 0.5"

definition rising :: "string \<Rightarrow> env" where
  "rising k = at_clock 0.95 0.5"

definition falling :: "string \<Rightarrow> env" where
  "falling k = at_clock 0.05 0.5"

definition currents_apart :: "string \<Rightarrow> env" where
  "currents_apart k = at_clock 0.5 (if k = ''SIF-402'' then 0.1 else 0.9)"

text \<open>A threshold configuration other than the default one.\<close>

definition wide_thresholds :: threshold_config where
  "wide_thresholds =
     \<lparr>voltage_min = 210, voltage_max = 230, current_min = 14.5, current_max = 15.8\<rparr>"

text \<open>The update the specification gives as an example of a rejected one.\<close>

definition inverted_thresholds :: threshold_config where
  "inverted_thresholds =
     \<lparr>voltage_min = 230, voltage_max = 220, current_min = 14.5, current_max = 15.8\<rparr>"

definition dashboard0 :: dashboard where
  "dashboard0 =
     \<lparr>chatMessages = [], inputMessage = [], isLoading = False,
      thresholds = default_thresholds, tempThresholds = inverted_thresholds,
      showThresholdConfig = True\<rparr>"

text \<open>Two completion services that answer every prompt, differently.\<close>

definition service_a :: "string \<Rightarrow> string option" where
  "service_a p = Some ''All stations are operating normally.''"

definition service_b :: "string \<Rightarrow> string option" where
  "service_b p = Some ''SIF-405 is running close to its voltage limit.''"

text \<open>A steady small drift: every voltage rises by \<open>0.1\<close> per tick.\<close>

definition drifting :: "string \<Rightarrow> env" where
  "drifting k = at_clock 0.55 0.5"

text \<open>Twenty-five such ticks.\<close>

definition drift25 :: "(string \<Rightarrow> env) list" where
  "drift25 = replicate 25 drifting"

text \<open>Two ticks after which SIF-402 and SIF-405 have current alerts.\<close>

definition two_ticks :: twin where
  "two_ticks = run [currents_apart, currents_apart] initial"

text \<open>An input that is blank: a space, U+00A0 and a tab.\<close>

definition blank_chat :: chat_state where
  "blank_chat =
     \<lparr>chatMessages = [], inputMessage = [CHR 0x20, CHR 0xC2, CHR 0xA0, CHR 0x09],
      isLoading = False\<rparr>"

definition chat0 :: chat_state where
  "chat0 = \<lparr>chatMessages = [], inputMessage = ''any alerts?'', isLoading = False\<rparr>"

text \<open>
  Four ticks that raise every voltage, which takes SIF-405 from 221 V to 224.6 V, and
  then one tick that lowers it again.
\<close>

definition breach :: "(string \<Rightarrow> env) list" where
  "breach = [rising, rising, rising, rising]"

definition breach_and_recover :: "(string \<Rightarrow> env) list" where
  "breach_and_recover = [rising, rising, rising, rising, falling]"

text \<open>A reading with both measurements outside the simulator's bounds after a steady tick.\<close>

definition both_out :: station where
  "both_out = \<lparr>voltage = 224.6, current = 15.9, status = Normal, trend = []\<rparr>"

text \<open>A service that answers one prompt only, the one built from the initial state.\<close>

definition service_c :: "string \<Rightarrow> string option" where
  "service_c p =
     (if p = prompt initial_stationData [] ''any alerts?''
      then Some ''All stations are operating normally.'' else None)"

section \<open>Lemmas about one station's update and one tick\<close>

lemma update_station_eq:
  "update_station als e stn st =
     (if next_voltage e st < 216 \<or> next_voltage e st > 224 then
        (st\<lparr>voltage := next_voltage e st, current := next_current e st,
            trend := slice_last 20 (trend st @ [next_point e st]), status := Warning\<rparr>,
         if alertExists als stn Voltage = None then
           [\<lparr>alert_id = date_now e, alert_station = stn, alert_type = Voltage,
             message = ''Voltage anomaly detected: '' @ toFixed1 (next_voltage e st) @ ''V'',
             timestamp = alert_time e\<rparr>]
         else [])
      else if next_current e st < 14.5 \<or> next_current e st > 15.8 then
        (st\<lparr>voltage := next_voltage e st, current := next_current e st,
            trend := slice_last 20 (trend st @ [next_point e st]), status := Warning\<rparr>,
         if alertExists als stn Current = None then
           [\<lparr>alert_id = date_now e, alert_station = stn, alert_type = Current,
             message = ''Current anomaly detected: '' @ toFixed1 (next_current e st) @ ''A'',
             timestamp = alert_time e\<rparr>]
         else [])
      else (st\<lparr>voltage := next_voltage e st, current := next_current e st,
               trend := slice_last 20 (trend st @ [next_point e st]), status := Normal\<rparr>, []))"
  unfolding update_station_def next_voltage_def next_current_def next_point_def Let_def ..

lemma update_station_voltage:
  "voltage (fst (update_station als e k st)) = next_voltage e st"
  by (simp add: update_station_eq)

lemma update_station_current:
  "current (fst (update_station als e k st)) = next_current e st"
  by (simp add: update_station_eq)

lemma update_station_trend:
  "trend (fst (update_station als e k st)) = slice_last 20 (trend st @ [next_point e st])"
  by (simp add: update_station_eq)

lemma update_station_status:
  "status (fst (update_station als e k st)) =
     (if next_voltage e st < 216 \<or> next_voltage e st > 224 then Warning
      else if next_current e st < 14.5 \<or> next_current e st > 15.8 then Warning else Normal)"
  by (simp add: update_station_eq)

lemma update_station_alerts_length: "length (snd (update_station als e k st)) \<le> 1"
  by (simp add: update_station_eq)

lemma update_station_alert_fresh:
  assumes "a \<in> set (snd (update_station als e k st))"
  shows "alert_station a = k \<and> alert_key a \<notin> alert_key ` set als"
  using assms
  by (auto simp: update_station_eq alertExists_def find_None_iff alert_key_def split: if_splits)

lemma update_station_alert_type:
  assumes "a \<in> set (snd (update_station als e k st))"
  shows "alert_type a = (if next_voltage e st < 216 \<or> next_voltage e st > 224 then Voltage else Current)"
  using assms by (auto simp: update_station_eq split: if_splits)

lemma set_stationData_tick:
  "set (stationData (tick e s)) = (\<lambda>(k, st). (k, fst (update_station (alerts s) (e k) k st))) ` set (stationData s)"
  by (simp add: tick_def)

lemma keys_tick: "map fst (stationData (tick e s)) = map fst (stationData s)"
  by (simp add: tick_def case_prod_unfold comp_def)

lemma keys_run: "map fst (stationData (run es s)) = map fst (stationData s)"
  by (induction es arbitrary: s) (simp_all add: keys_tick)

lemma map_of_tick:
  "map_of (stationData (tick e s)) k =
     map_option (\<lambda>st. fst (update_station (alerts s) (e k) k st)) (map_of (stationData s) k)"
proof -
  have "map_of (map (\<lambda>(k, st). (k, f k st)) xs) k = map_option (f k) (map_of xs k)" for f :: "string \<Rightarrow> station \<Rightarrow> station" and xs
    by (induction xs) auto
  then show ?thesis by (simp add: tick_def)
qed

lemma alerts_tick:
  "alerts (tick e s) = alerts s @ concat (map (\<lambda>(k, st). snd (update_station (alerts s) (e k) k st)) (stationData s))"
  by (simp add: tick_def)

lemma next_voltage_bounds: "215 \<le> next_voltage e st \<and> next_voltage e st \<le> 225"
  by (simp add: next_voltage_def)

lemma next_current_bounds: "14 \<le> next_current e st \<and> next_current e st \<le> 16"
  by (simp add: next_current_def)

lemma length_slice_last: "length (slice_last n xs) = min n (length xs)"
  by (simp add: slice_last_def)

lemma slice_last_append: "slice_last n (slice_last n xs @ ys) = slice_last n (xs @ ys)"
  by (cases "length xs \<le> n") (simp_all add: slice_last_def add.commute)

lemma distinct_map_append_apart:
  fixes new rest :: "'a list" and f :: "'a \<Rightarrow> 'b"
  assumes "distinct (map f new)" "distinct (map f rest)"
    "\<And>a b. a \<in> set new \<Longrightarrow> b \<in> set rest \<Longrightarrow> f a \<noteq> f b"
  shows "distinct (map f (new @ rest))"
  using assms by auto

lemma queued_alerts_distinct:
  assumes "distinct (map fst sd)"
  shows "distinct (map alert_key (concat (map (\<lambda>(k, st). snd (update_station als (e k) k st)) sd)))"
  using assms
proof (induction sd)
  case Nil
  then show ?case by simp
next
  case (Cons p sd)
  obtain k st where p: "p = (k, st)" by (cases p)
  let ?new = "snd (update_station als (e k) k st)"
  let ?rest = "concat (map (\<lambda>(k, st). snd (update_station als (e k) k st)) sd)"
  have one: "distinct (map alert_key ?new)"
    using update_station_alerts_length [of als "e k" k st]
    by (cases ?new) (simp_all)
  have stations: "alert_station b \<in> fst ` set sd" if "b \<in> set ?rest" for b
  proof -
    from that obtain k' st' where "(k', st') \<in> set sd" "b \<in> set (snd (update_station als (e k') k' st'))"
      by auto
    then show ?thesis using update_station_alert_fresh [of b als "e k'" k' st'] by force
  qed
  have apart: "alert_key a \<noteq> alert_key b" if "a \<in> set ?new" "b \<in> set ?rest" for a b
  proof -
    have "alert_station a = k" using that(1) update_station_alert_fresh by blast
    moreover have "alert_station b \<noteq> k" using stations [OF that(2)] Cons.prems p by auto
    ultimately show ?thesis by (auto simp: alert_key_def)
  qed
  from Cons have "distinct (map alert_key ?rest)" by simp
  with one have "distinct (map alert_key (?new @ ?rest))"
    using apart by (intro distinct_map_append_apart)
  then show ?case by (simp add: p)
qed

lemma tick_alerts_distinct:
  assumes "distinct (map fst (stationData s))" and "distinct (map alert_key (alerts s))"
  shows "distinct (map alert_key (alerts (tick e s)))"
proof -
  define new where
    "new = concat (map (\<lambda>(k, st). snd (update_station (alerts s) (e k) k st)) (stationData s))"
  have fresh: "alert_key b \<noteq> alert_key a" if "b \<in> set (alerts s)" "a \<in> set new" for a b
  proof -
    from that(2) obtain k st where "a \<in> set (snd (update_station (alerts s) (e k) k st))"
      by (auto simp: new_def)
    then have "alert_key a \<notin> alert_key ` set (alerts s)"
      using update_station_alert_fresh by blast
    with that(1) show ?thesis by (metis imageI)
  qed
  have new: "distinct (map alert_key new)"
    unfolding new_def by (rule queued_alerts_distinct [OF assms(1)])
  have "distinct (map alert_key (alerts s @ new))"
    using assms(2) new fresh by (intro distinct_map_append_apart)
  then show ?thesis by (simp add: alerts_tick new_def)
qed

lemma run_alerts_distinct:
  assumes "distinct (map fst (stationData s))" and "distinct (map alert_key (alerts s))"
  shows "distinct (map alert_key (alerts (run es s)))"
  using assms
  by (induction es arbitrary: s) (simp_all add: tick_alerts_distinct keys_tick)

lemma length_published:
  assumes "k \<in> fst ` set (stationData s)"
  shows "length (published k es s) = length es"
  using assms
proof (induction es arbitrary: s)
  case Nil
  then show ?case by simp
next
  case (Cons e es)
  from Cons.prems have "map_of (stationData s) k \<noteq> None"
    by (simp add: map_of_eq_None_iff)
  then have "map_of (stationData (tick e s)) k \<noteq> None"
    by (simp add: map_of_tick)
  moreover have "k \<in> fst ` set (stationData (tick e s))"
    using Cons.prems keys_tick [of e s] by (metis set_map)
  ultimately show ?case using Cons.IH by auto
qed

lemma run_trend:
  assumes "map_of (stationData s) k = Some st" and "length (trend st) \<le> 20"
  shows "\<exists>st'. map_of (stationData (run es s)) k = Some st'
           \<and> trend st' = slice_last 20 (trend st @ published k es s)"
  using assms
proof (induction es arbitrary: s st)
  case Nil
  then show ?case by (simp add: slice_last_def)
next
  case (Cons e es)
  let ?st1 = "fst (update_station (alerts s) (e k) k st)"
  have st1: "map_of (stationData (tick e s)) k = Some ?st1"
    using Cons.prems by (simp add: map_of_tick)
  have pt: "\<lparr>tp_voltage = voltage ?st1, tp_current = current ?st1, tp_timestamp = trend_time (e k)\<rparr> = next_point (e k) st"
    by (simp add: update_station_voltage update_station_current next_point_def)
  have "length (trend ?st1) \<le> 20"
    by (simp add: update_station_trend length_slice_last)
  from Cons.IH [OF st1 this] obtain st' where
    st': "map_of (stationData (run es (tick e s))) k = Some st'"
      "trend st' = slice_last 20 (trend ?st1 @ published k es (tick e s))"
    by blast
  have "trend st' = slice_last 20 (trend st @ published k (e # es) s)"
    using st'(2) st1 pt by (simp add: update_station_trend slice_last_append)
  with st'(1) show ?case by simp
qed

section \<open>Lemmas about runs and the examples\<close>

lemma last_slice_last_snoc: "0 < n \<Longrightarrow> last (slice_last n (xs @ [x])) = x"
  by (simp add: slice_last_def)

lemma slice_last_snoc_nonempty: "0 < n \<Longrightarrow> slice_last n (xs @ [x]) \<noteq> []"
  by (simp add: slice_last_def)

lemma alerts_run_prefix: "prefix (alerts s) (alerts (run es s))"
proof (induction es arbitrary: s)
  case Nil
  then show ?case by simp
next
  case (Cons e es)
  have "prefix (alerts s) (alerts (tick e s))" by (simp add: alerts_tick)
  then show ?case using Cons [of "tick e s"] by (auto intro: prefix_order.trans)
qed

lemma run_append: "run (xs @ ys) s = run ys (run xs s)"
  by (induction xs arbitrary: s) simp_all

lemma reading_of_mem:
  assumes "k \<in> set (map fst (stationData s))"
  shows "(k, reading_of s k) \<in> set (stationData s)"
proof -
  from assms obtain st where "map_of (stationData s) k = Some st"
    by (metis map_of_eq_None_iff not_Some_eq set_map)
  then show ?thesis by (simp add: reading_of_def map_of_SomeD)
qed

lemma reading_of_tick:
  assumes "k \<in> set (map fst (stationData s))"
  shows "reading_of (tick e s) k = fst (update_station (alerts s) (e k) k (reading_of s k))"
proof -
  from assms obtain st where "map_of (stationData s) k = Some st"
    by (metis map_of_eq_None_iff not_Some_eq set_map)
  then show ?thesis by (simp add: reading_of_def map_of_tick)
qed

lemma voltage_tick:
  "k \<in> set (map fst (stationData s)) \<Longrightarrow>
     voltage (reading_of (tick e s) k) = next_voltage (e k) (reading_of s k)"
  by (simp add: reading_of_tick update_station_voltage)

lemma current_tick:
  "k \<in> set (map fst (stationData s)) \<Longrightarrow>
     current (reading_of (tick e s) k) = next_current (e k) (reading_of s k)"
  by (simp add: reading_of_tick update_station_current)

lemma status_tick:
  "k \<in> set (map fst (stationData s)) \<Longrightarrow>
     status (reading_of (tick e s) k) =
       (if voltage (reading_of (tick e s) k) < 216 \<or> voltage (reading_of (tick e s) k) > 224
        then Warning
        else if current (reading_of (tick e s) k) < 14.5 \<or> current (reading_of (tick e s) k) > 15.8
        then Warning else Normal)"
  by (simp add: reading_of_tick update_station_status update_station_voltage update_station_current)

lemma trend_tick:
  "k \<in> set (map fst (stationData s)) \<Longrightarrow>
     trend (reading_of (tick e s) k) =
       slice_last 20 (trend (reading_of s k) @ [next_point (e k) (reading_of s k)])"
  by (simp add: reading_of_tick update_station_trend)

lemma keys_initial:
  "map fst (stationData initial) = [''SIF-401'', ''SIF-402'', ''SIF-405'', ''SIF-407'']"
  by (simp add: initial_def initial_stationData_def)

lemma readings_initial:
  "reading_of initial ''SIF-401'' = \<lparr>voltage = 220, current = 15.2, status = Normal, trend = []\<rparr>"
  "reading_of initial ''SIF-402'' = \<lparr>voltage = 218, current = 14.8, status = Normal, trend = []\<rparr>"
  "reading_of initial ''SIF-405'' = \<lparr>voltage = 221, current = 15.5, status = Normal, trend = []\<rparr>"
  "reading_of initial ''SIF-407'' = \<lparr>voltage = 219, current = 15.1, status = Normal, trend = []\<rparr>"
  by (simp_all add: reading_of_def initial_def initial_stationData_def)

lemmas walk = keys_tick keys_initial voltage_tick current_tick readings_initial
  next_voltage_def next_current_def at_clock_def steady_def rising_def falling_def
  currents_apart_def

lemma keys_breach:
  "map fst (stationData (run breach initial)) = [''SIF-401'', ''SIF-402'', ''SIF-405'', ''SIF-407'']"
  by (simp add: keys_run keys_initial)

lemma breach_voltage: "voltage (reading_of (run breach initial) ''SIF-405'') = 224.6"
  by (simp add: breach_def walk)

lemma breach_current: "current (reading_of (run breach initial) ''SIF-405'') = 15.5"
  by (simp add: breach_def walk)

lemma breach_status: "status (reading_of (run breach initial) ''SIF-405'') = Warning"
  by (simp add: breach_def status_tick walk)

lemma recover_status: "status (reading_of (run breach_and_recover initial) ''SIF-405'') = Normal"
  by (simp add: breach_and_recover_def status_tick walk)

lemma warning_has_alert:
  assumes "(k, st) \<in> set (stationData s)"
    and "status (fst (update_station (alerts s) (e k) k st)) = Warning"
  shows "\<exists>a \<in> set (alerts (tick e s)).
           alert_key a =
             (k, if next_voltage (e k) st < 216 \<or> next_voltage (e k) st > 224
                 then Voltage else Current)"
proof -
  define ty where
    "ty = (if next_voltage (e k) st < 216 \<or> next_voltage (e k) st > 224 then Voltage else Current)"
  show ?thesis
  proof (cases "alertExists (alerts s) k ty")
    case None
    with assms(2) obtain a where a: "snd (update_station (alerts s) (e k) k st) = [a]"
      "alert_station a = k" "alert_type a = ty"
      by (auto simp: update_station_eq ty_def split: if_splits)
    with assms(1) have "a \<in> set (alerts (tick e s))"
      by (force simp: alerts_tick)
    with a show ?thesis unfolding ty_def [symmetric] by (force simp: alert_key_def)
  next
    case (Some a)
    then have "a \<in> set (alerts s)" and "alert_key a = (k, ty)"
      by (auto simp: alertExists_def alert_key_def find_Some_iff)
    then show ?thesis unfolding ty_def [symmetric] by (auto simp: alerts_tick)
  qed
qed

lemma distinct_map_count_one:
  fixes f :: "'a \<Rightarrow> 'b"
  assumes "distinct (map f xs)" and "a \<in> set xs"
  shows "length (filter (\<lambda>b. f b = f a) xs) = 1"
  using assms
proof (induction xs)
  case Nil
  then show ?case by simp
next
  case (Cons x xs)
  show ?case
  proof (cases "x = a")
    case True
    from Cons.prems(1) have "f x \<notin> f ` set xs" by simp
    then have "f b \<noteq> f x" if "b \<in> set xs" for b using that by (metis imageI)
    then have "filter (\<lambda>b. f b = f a) xs = []" by (simp add: True filter_empty_conv)
    then show ?thesis by (simp add: True)
  next
    case False
    with Cons.prems have "a \<in> set xs" and "f x \<noteq> f a" by auto
    with Cons show ?thesis by simp
  qed
qed

lemma breach_alert:
  "\<exists>a \<in> set (alerts (run breach initial)). alert_key a = (''SIF-405'', Voltage)"
proof -
  define s where "s = run [rising, rising, rising] initial"
  have run: "run breach initial = tick rising s"
    by (simp add: breach_def s_def)
  have keys: "''SIF-405'' \<in> set (map fst (stationData s))"
    by (simp add: s_def walk)
  have "status (reading_of (tick rising s) ''SIF-405'') = Warning"
    using breach_status by (simp add: run)
  then have "status (fst (update_station (alerts s) (rising ''SIF-405'') ''SIF-405''
               (reading_of s ''SIF-405''))) = Warning"
    by (simp add: reading_of_tick [OF keys])
  from warning_has_alert [of "''SIF-405''" "reading_of s ''SIF-405''" s rising,
      OF reading_of_mem [OF keys] this]
  have "\<exists>a \<in> set (alerts (tick rising s)).
           alert_key a = (''SIF-405'',
             if voltage (reading_of (tick rising s) ''SIF-405'') < 216
                \<or> voltage (reading_of (tick rising s) ''SIF-405'') > 224
             then Voltage else Current)"
    by (simp add: voltage_tick [OF keys])
  then show ?thesis using breach_voltage by (simp add: run)
qed

section \<open>Lemmas about the prompt and the blank-input guard\<close>

lemma trim_blank: "trim (inputMessage blank_chat) = []"
  by (simp add: blank_chat_def trim_def white_space_def strip_leading.simps)

lemma trim_chat0: "trim (inputMessage chat0) = ''any alerts?''"
  by (simp add: chat0_def trim_def white_space_def strip_leading.simps)

lemma sublist_join: "x \<in> set xs \<Longrightarrow> sublist x (join sep xs)"
proof (induction sep xs rule: join.induct)
  case (1 sep)
  then show ?case by simp
next
  case (2 sep y)
  then show ?case by simp
next
  case (3 sep y z zs)
  show ?case
  proof (cases "x = y")
    case True
    have "join sep (y # z # zs) = [] @ y @ (sep @ join sep (z # zs))" by simp
    then show ?thesis unfolding True sublist_def by blast
  next
    case False
    with 3 have "sublist x (join sep (z # zs))" by simp
    then obtain ps ss where "join sep (z # zs) = ps @ x @ ss" unfolding sublist_def by blast
    then have "join sep (y # z # zs) = (y @ sep @ ps) @ x @ ss" by simp
    then show ?thesis unfolding sublist_def by blast
  qed
qed

lemma sublist_in_context: "sublist x y \<Longrightarrow> sublist x (p @ y @ s)"
proof -
  assume "sublist x y"
  then obtain ps ss where "y = ps @ x @ ss" unfolding sublist_def by blast
  then have "p @ y @ s = (p @ ps) @ x @ (ss @ s)" by simp
  then show ?thesis unfolding sublist_def by blast
qed

lemma sublist_within: "sublist x y \<Longrightarrow> sublist y z \<Longrightarrow> sublist x z"
proof -
  assume xy: "sublist x y" and "sublist y z"
  then obtain ps ss where "z = ps @ y @ ss" unfolding sublist_def by blast
  with sublist_in_context [OF xy, of ps ss] show ?thesis by simp
qed

lemma prompt_parts:
  "prompt sd als q =
     (''You are a helpful assistant for the SIF-400 Digital Twin monitoring system.'' @ nl
       @ ''      Current station readings:'' @ nl @ ''      '')
     @ stationContext sd
     @ ((nl @ nl @ ''      '') @ (''Active alerts: ''
          @ (if length als > 0 then join '', '' (map message als) else ''None''))
        @ (nl @ nl @ ''      '') @ (''User question: '' @ q) @ (nl @ nl
          @ ''      Please provide a concise, helpful response about the voltage and current status of the stations.''))"
  by (simp add: prompt_def)

lemma prompt_has_question: "sublist (''User question: '' @ q) (prompt sd als q)"
proof -
  have "sublist (''User question: '' @ q)
          (((nl @ nl @ ''      '') @ (''Active alerts: ''
              @ (if length als > 0 then join '', '' (map message als) else ''None''))
            @ (nl @ nl @ ''      '')) @ (''User question: '' @ q) @ (nl @ nl
          @ ''      Please provide a concise, helpful response about the voltage and current status of the stations.''))"
    by (rule sublist_appendI)
  then have "sublist (''User question: '' @ q)
          ((''You are a helpful assistant for the SIF-400 Digital Twin monitoring system.'' @ nl
             @ ''      Current station readings:'' @ nl @ ''      '' @ stationContext sd)
           @ (((nl @ nl @ ''      '') @ (''Active alerts: ''
              @ (if length als > 0 then join '', '' (map message als) else ''None''))
            @ (nl @ nl @ ''      '')) @ (''User question: '' @ q) @ (nl @ nl
          @ ''      Please provide a concise, helpful response about the voltage and current status of the stations.'')) @ [])"
    by (rule sublist_in_context)
  then show ?thesis by (simp add: prompt_def)
qed

lemma prompt_has_alerts_text:
  "sublist (''Active alerts: ''
     @ (if length als > 0 then join '', '' (map message als) else ''None'')) (prompt sd als q)"
proof -
  have "sublist (''Active alerts: ''
          @ (if length als > 0 then join '', '' (map message als) else ''None''))
        ((''You are a helpful assistant for the SIF-400 Digital Twin monitoring system.'' @ nl
             @ ''      Current station readings:'' @ nl @ ''      '' @ stationContext sd
             @ nl @ nl @ ''      '')
         @ (''Active alerts: ''
          @ (if length als > 0 then join '', '' (map message als) else ''None''))
         @ (nl @ nl @ ''      User question: '' @ q @ nl @ nl
          @ ''      Please provide a concise, helpful response about the voltage and current status of the stations.''))"
    by (rule sublist_appendI)
  then show ?thesis by (simp add: prompt_def)
qed

lemma prompt_has_context: "sublist (stationContext sd) (prompt sd als q)"
  unfolding prompt_parts by (rule sublist_appendI)

lemma prompt_has_station:
  assumes "(k, st) \<in> set sd"
  shows "sublist (k @ '': Voltage='' @ toFixed1 (voltage st) @ ''V, Current=''
            @ toFixed1 (current st) @ ''A, Status='' @ status_str (status st)) (prompt sd als q)"
proof -
  from assms have "k @ '': Voltage='' @ toFixed1 (voltage st) @ ''V, Current=''
            @ toFixed1 (current st) @ ''A, Status='' @ status_str (status st)
          \<in> set (map (\<lambda>(stn, data).
        stn @ '': Voltage='' @ toFixed1 (voltage data) @ ''V, Current='' @ toFixed1 (current data)
          @ ''A, Status='' @ status_str (status data)) sd)"
    by force
  then have "sublist (k @ '': Voltage='' @ toFixed1 (voltage st) @ ''V, Current=''
            @ toFixed1 (current st) @ ''A, Status='' @ status_str (status st)) (stationContext sd)"
    unfolding stationContext_def by (rule sublist_join)
  then show ?thesis by (rule sublist_within) (rule prompt_has_context)
qed

lemma prompt_has_alert:
  assumes "a \<in> set als"
  shows "sublist (message a) (prompt sd als q)"
proof -
  from assms have "length als > 0" by (cases als) auto
  moreover from assms have "sublist (message a) (join '', '' (map message als))"
    by (intro sublist_join) simp
  then have "sublist (message a) (''Active alerts: '' @ join '', '' (map message als) @ [])"
    by (rule sublist_in_context)
  ultimately have "sublist (message a) (''Active alerts: ''
     @ (if length als > 0 then join '', '' (map message als) else ''None''))"
    by simp
  then show ?thesis by (rule sublist_within) (rule prompt_has_alerts_text)
qed

lemma prompt_initial:
  "prompt initial_stationData [] ''any alerts?'' =
     ''You are a helpful assistant for the SIF-400 Digital Twin monitoring system.'' @ nl
     @ ''      Current station readings:'' @ nl
     @ ''      SIF-401: Voltage=220.0V, Current=15.2A, Status=normal'' @ nl
     @ ''SIF-402: Voltage=218.0V, Current=14.8A, Status=normal'' @ nl
     @ ''SIF-405: Voltage=221.0V, Current=15.5A, Status=normal'' @ nl
     @ ''SIF-407: Voltage=219.0V, Current=15.1A, Status=normal'' @ nl
     @ nl
     @ ''      Active alerts: None'' @ nl
     @ nl
     @ ''      User question: any alerts?'' @ nl
     @ nl
     @ ''      Please provide a concise, helpful response about the voltage and current status of the stations.''"
  by (simp add: prompt_def stationContext_def initial_stationData_def toFixed1_def
      show_nat.simps digit_def Let_def)

lemma toFixed1_examples: "toFixed1 218 = ''218.0''" "toFixed1 (72 / 5) = ''14.4''"
  by (simp_all add: toFixed1_def show_nat.simps digit_def Let_def)

lemma alerts_two_ticks:
  "alerts two_ticks =
     [\<lparr>alert_id = 1700000000000, alert_station = ''SIF-402'', alert_type = Current,
       message = ''Current anomaly detected: 14.4A'', timestamp = ''10:00:00 AM''\<rparr>,
      \<lparr>alert_id = 1700000000000, alert_station = ''SIF-405'', alert_type = Current,
       message = ''Current anomaly detected: 15.9A'', timestamp = ''10:00:00 AM''\<rparr>]"
  by (simp add: two_ticks_def initial_def initial_stationData_def tick_def update_station_def
      alertExists_def slice_last_def Let_def at_clock_def currents_apart_def toFixed1_def
      show_nat.simps digit_def)

lemma two_ticks_402:
  "(''SIF-402'', reading_of two_ticks ''SIF-402'') \<in> set (stationData two_ticks)"
  "voltage (reading_of two_ticks ''SIF-402'') = 218"
  "current (reading_of two_ticks ''SIF-402'') = 14.4"
  "status (reading_of two_ticks ''SIF-402'') = Warning"
proof -
  show "(''SIF-402'', reading_of two_ticks ''SIF-402'') \<in> set (stationData two_ticks)"
    by (rule reading_of_mem) (simp add: two_ticks_def walk)
  show "voltage (reading_of two_ticks ''SIF-402'') = 218"
    and "current (reading_of two_ticks ''SIF-402'') = 14.4"
    by (simp_all add: two_ticks_def walk)
  then show "status (reading_of two_ticks ''SIF-402'') = Warning"
    by (simp add: two_ticks_def status_tick walk)
qed

section \<open>Lemmas about the published trend points\<close>

lemma published_Cons:
  assumes "k \<in> set (map fst (stationData s))"
  shows "published k (e # es) s =
           \<lparr>tp_voltage = voltage (reading_of (tick e s) k),
            tp_current = current (reading_of (tick e s) k),
            tp_timestamp = trend_time (e k)\<rparr> # published k es (tick e s)"
proof -
  from assms have "k \<in> set (map fst (stationData (tick e s)))" by (simp add: keys_tick)
  then obtain st where "map_of (stationData (tick e s)) k = Some st"
    by (metis map_of_eq_None_iff not_Some_eq set_map)
  then show ?thesis by (simp add: reading_of_def)
qed

lemma drift25_voltages:
  "map tp_voltage (published ''SIF-401'' drift25 initial) =
     [220.1, 220.2, 220.3, 220.4, 220.5, 220.6, 220.7, 220.8, 220.9, 221.0,
      221.1, 221.2, 221.3, 221.4, 221.5, 221.6, 221.7, 221.8, 221.9, 222.0,
      222.1, 222.2, 222.3, 222.4, 222.5]"
proof -
  have es: "drift25 = [drifting, drifting, drifting, drifting, drifting,
      drifting, drifting, drifting, drifting, drifting,
      drifting, drifting, drifting, drifting, drifting,
      drifting, drifting, drifting, drifting, drifting,
      drifting, drifting, drifting, drifting, drifting]"
    by (simp add: drift25_def eval_nat_numeral)
  show ?thesis
    unfolding es
    by (simp add: published_Cons keys_tick keys_initial voltage_tick readings_initial
        next_voltage_def drifting_def at_clock_def del: published.simps(2))
qed

section \<open>The claims\<close>

subsection \<open>C1: the power of a reading\<close>

text \<open>
  Claim C1 says that the power field of every reading the simulator produces equals the
  product of that reading's voltage and current. The simulator's readings have no power
  field: after a steady tick from the initial state the reading of SIF-401 has voltage 220
  and current 15.2, and reading its \<open>power\<close> property does not give their product.
\<close>

theorem power_field_counterexample:
  "voltage (reading_of (tick steady initial) ''SIF-401'') = 220
   \<and> current (reading_of (tick steady initial) ''SIF-401'') = 15.2
   \<and> station_prop (reading_of (tick steady initial) ''SIF-401'') ''power''
       \<noteq> Some (JNum (voltage (reading_of (tick steady initial) ''SIF-401'')
                       * current (reading_of (tick steady initial) ''SIF-401'')))"
  by (simp add: station_prop_def walk)

text \<open>
  Claim C1 as amended: a reading produced by a tick carries voltage, current, status and
  trend and no power field, so no stored power can be stale; what a tick recomputes from
  the reading's own voltage and current is the newest trend point, which carries exactly
  the voltage and the current of the reading it was made for.
\<close>

theorem reading_carries_no_power:
  "\<forall>(k, st) \<in> set (stationData (tick e s)).
     station_prop st ''power'' = None
     \<and> trend st \<noteq> []
     \<and> tp_voltage (last (trend st)) = voltage st
     \<and> tp_current (last (trend st)) = current st"
proof -
  have "station_prop st' ''power'' = None \<and> trend st' \<noteq> []
      \<and> tp_voltage (last (trend st')) = voltage st' \<and> tp_current (last (trend st')) = current st'"
    if "(k, st') \<in> set (stationData (tick e s))" for k st'
  proof -
    from that obtain st where "st' = fst (update_station (alerts s) (e k) k st)"
      by (auto simp: set_stationData_tick)
    then show ?thesis
      by (simp add: station_prop_def update_station_voltage update_station_current
          update_station_trend last_slice_last_snoc slice_last_snoc_nonempty next_point_def)
  qed
  then show ?thesis by blast
qed

text \<open>
  The amended claim at the reading of SIF-401 after a steady tick from the initial state.
\<close>

theorem reading_carries_no_power_witness:
  "(''SIF-401'', reading_of (tick steady initial) ''SIF-401'') \<in> set (stationData (tick steady initial))
   \<and> station_prop (reading_of (tick steady initial) ''SIF-401'') ''power'' = None
   \<and> trend (reading_of (tick steady initial) ''SIF-401'') \<noteq> []
   \<and> tp_voltage (last (trend (reading_of (tick steady initial) ''SIF-401''))) = 220
   \<and> tp_current (last (trend (reading_of (tick steady initial) ''SIF-401''))) = 15.2"
proof -
  have mem: "(''SIF-401'', reading_of (tick steady initial) ''SIF-401'')
               \<in> set (stationData (tick steady initial))"
    by (rule reading_of_mem) (simp add: walk)
  have "voltage (reading_of (tick steady initial) ''SIF-401'') = 220"
    and "current (reading_of (tick steady initial) ''SIF-401'') = 15.2"
    by (simp_all add: walk)
  with mem reading_carries_no_power [of steady initial] show ?thesis by auto
qed

subsection \<open>C2: the answer to a chat query\<close>

text \<open>
  Claim C2 says that the response to a query is a function of the query text and of the
  snapshot of readings and alerts, with no language model involved. The handler returns
  what \<open>window.claude.complete\<close> returns: for the same query and the same snapshot,
  two services that answer differently give two different conversations.
\<close>

theorem chat_response_counterexample:
  "chatMessages (handleChatSubmit service_a initial_stationData [] chat0)
     \<noteq> chatMessages (handleChatSubmit service_b initial_stationData [] chat0)"
  using trim_chat0
  by (simp add: handleChatSubmit_def chat0_def service_a_def service_b_def Let_def)

text \<open>
  Claim C2 as amended. A query that is blank (white space only) or submitted while an
  earlier one is loading changes nothing. Any other query is appended to the conversation,
  followed by the reply of the completion service to the prompt, or by the apology when
  the service fails; the outcome depends on the service only through its reply to that one
  prompt, so two services that agree on it leave the same state. The prompt for a query
  \<open>q\<close> contains \<open>q\<close> after "User question: ", for every station its line with
  the voltage and the current to one decimal and the status, the message of every alert,
  and "Active alerts: None" when there is no alert. Thresholds are not among the
  arguments of the handler or of the prompt.
\<close>

theorem chat_response_from_service:
  "(trim (inputMessage ui) = [] \<or> isLoading ui \<longrightarrow>
      handleChatSubmit claude_complete sd als ui = ui)
   \<and> (trim (inputMessage ui) \<noteq> [] \<and> \<not> isLoading ui \<longrightarrow>
        chatMessages (handleChatSubmit claude_complete sd als ui) =
          chatMessages ui @
            [\<lparr>role = User, content = inputMessage ui\<rparr>,
             \<lparr>role = Assistant,
              content = (case claude_complete (prompt sd als (inputMessage ui)) of
                           Some response \<Rightarrow> response | None \<Rightarrow> apology)\<rparr>]
        \<and> (other (prompt sd als (inputMessage ui))
              = claude_complete (prompt sd als (inputMessage ui)) \<longrightarrow>
            handleChatSubmit other sd als ui = handleChatSubmit claude_complete sd als ui))
   \<and> sublist (''User question: '' @ q) (prompt sd als q)
   \<and> (\<forall>(k, st) \<in> set sd.
        sublist (k @ '': Voltage='' @ toFixed1 (voltage st) @ ''V, Current=''
                   @ toFixed1 (current st) @ ''A, Status='' @ status_str (status st))
          (prompt sd als q))
   \<and> (\<forall>a \<in> set als. sublist (message a) (prompt sd als q))
   \<and> (als = [] \<longrightarrow> sublist ''Active alerts: None'' (prompt sd als q))"
proof -
  have blank: "handleChatSubmit claude_complete sd als ui = ui"
    if "trim (inputMessage ui) = [] \<or> isLoading ui"
    using that by (auto simp: handleChatSubmit_def)
  have answered: "chatMessages (handleChatSubmit claude_complete sd als ui) =
          chatMessages ui @
            [\<lparr>role = User, content = inputMessage ui\<rparr>,
             \<lparr>role = Assistant,
              content = (case claude_complete (prompt sd als (inputMessage ui)) of
                           Some response \<Rightarrow> response | None \<Rightarrow> apology)\<rparr>]"
    if "trim (inputMessage ui) \<noteq> [] \<and> \<not> isLoading ui"
    using that by (auto simp: handleChatSubmit_def Let_def split: option.splits)
  have same: "handleChatSubmit other sd als ui = handleChatSubmit claude_complete sd als ui"
    if "other (prompt sd als (inputMessage ui)) = claude_complete (prompt sd als (inputMessage ui))"
    using that by (simp add: handleChatSubmit_def Let_def)
  have none: "sublist ''Active alerts: None'' (prompt sd als q)" if "als = []"
    using prompt_has_alerts_text [of als sd q] that by simp
  from blank answered same none prompt_has_question [of q sd als]
    prompt_has_station [of _ _ sd als q] prompt_has_alert [of _ als sd q]
  show ?thesis by blast
qed

text \<open>
  The amended claim at three inputs: a blank query (a space, U+00A0 and a tab), which is
  ignored; the query "any alerts?" against the state after two ticks that leave SIF-402
  at 14.4 A with a current alert, whose prompt contains the station's line and the alert's
  message; and the same query against the initial state, whose prompt is written out in
  full, with two services that agree on it.
\<close>

theorem chat_response_from_service_witness:
  "trim (inputMessage blank_chat) = []
   \<and> handleChatSubmit service_a (stationData two_ticks) (alerts two_ticks) blank_chat = blank_chat
   \<and> trim (inputMessage chat0) \<noteq> [] \<and> \<not> isLoading chat0
   \<and> chatMessages (handleChatSubmit service_a (stationData two_ticks) (alerts two_ticks) chat0) =
       [\<lparr>role = User, content = ''any alerts?''\<rparr>,
        \<lparr>role = Assistant, content = ''All stations are operating normally.''\<rparr>]
   \<and> service_c (prompt initial_stationData [] (inputMessage chat0))
       = service_a (prompt initial_stationData [] (inputMessage chat0))
   \<and> handleChatSubmit service_c initial_stationData [] chat0
       = handleChatSubmit service_a initial_stationData [] chat0
   \<and> (''SIF-402'', reading_of two_ticks ''SIF-402'') \<in> set (stationData two_ticks)
   \<and> sublist ''SIF-402: Voltage=218.0V, Current=14.4A, Status=warning''
        (prompt (stationData two_ticks) (alerts two_ticks) ''any alerts?'')
   \<and> sublist ''Current anomaly detected: 14.4A''
        (prompt (stationData two_ticks) (alerts two_ticks) ''any alerts?'')
   \<and> sublist ''User question: any alerts?''
        (prompt (stationData two_ticks) (alerts two_ticks) ''any alerts?'')
   \<and> sublist ''Active alerts: None'' (prompt initial_stationData [] ''any alerts?'')
   \<and> prompt initial_stationData [] ''any alerts?'' =
       ''You are a helpful assistant for the SIF-400 Digital Twin monitoring system.'' @ nl
       @ ''      Current station readings:'' @ nl
       @ ''      SIF-401: Voltage=220.0V, Current=15.2A, Status=normal'' @ nl
       @ ''SIF-402: Voltage=218.0V, Current=14.8A, Status=normal'' @ nl
       @ ''SIF-405: Voltage=221.0V, Current=15.5A, Status=normal'' @ nl
       @ ''SIF-407: Voltage=219.0V, Current=15.1A, Status=normal'' @ nl
       @ nl
       @ ''      Active alerts: None'' @ nl
       @ nl
       @ ''      User question: any alerts?'' @ nl
       @ nl
       @ ''      Please provide a concise, helpful response about the voltage and current status of the stations.''"
proof -
  note blank = chat_response_from_service
    [where ui = blank_chat and claude_complete = service_a
       and sd = "stationData two_ticks" and als = "alerts two_ticks"]
  note asked = chat_response_from_service
    [where ui = chat0 and claude_complete = service_a
       and sd = "stationData two_ticks" and als = "alerts two_ticks" and q = "''any alerts?''"]
  note calm = chat_response_from_service
    [where ui = chat0 and claude_complete = service_a and other = service_c
       and sd = initial_stationData and als = "[]" and q = "''any alerts?''"]
  have c1: "handleChatSubmit service_a (stationData two_ticks) (alerts two_ticks) blank_chat
              = blank_chat"
    using blank trim_blank by blast
  have guard: "trim (inputMessage chat0) \<noteq> [] \<and> \<not> isLoading chat0"
    by (simp add: trim_chat0) (simp add: chat0_def)
  with asked have "chatMessages (handleChatSubmit service_a (stationData two_ticks)
        (alerts two_ticks) chat0) =
      chatMessages chat0 @
        [\<lparr>role = User, content = inputMessage chat0\<rparr>,
         \<lparr>role = Assistant,
          content = (case service_a (prompt (stationData two_ticks) (alerts two_ticks)
                       (inputMessage chat0)) of
                       Some response \<Rightarrow> response | None \<Rightarrow> apology)\<rparr>]"
    by blast
  then have c2: "chatMessages (handleChatSubmit service_a (stationData two_ticks)
        (alerts two_ticks) chat0) =
       [\<lparr>role = User, content = ''any alerts?''\<rparr>,
        \<lparr>role = Assistant, content = ''All stations are operating normally.''\<rparr>]"
    by (simp add: service_a_def chat0_def)
  have agree: "service_c (prompt initial_stationData [] (inputMessage chat0))
       = service_a (prompt initial_stationData [] (inputMessage chat0))"
    by (simp add: service_c_def service_a_def chat0_def)
  with calm guard have c3: "handleChatSubmit service_c initial_stationData [] chat0
       = handleChatSubmit service_a initial_stationData [] chat0"
    by blast
  from asked two_ticks_402(1)
  have "sublist (''SIF-402'' @ '': Voltage='' @ toFixed1 (voltage (reading_of two_ticks ''SIF-402''))
          @ ''V, Current='' @ toFixed1 (current (reading_of two_ticks ''SIF-402''))
          @ ''A, Status='' @ status_str (status (reading_of two_ticks ''SIF-402'')))
        (prompt (stationData two_ticks) (alerts two_ticks) ''any alerts?'')"
    by blast
  then have c4: "sublist ''SIF-402: Voltage=218.0V, Current=14.4A, Status=warning''
        (prompt (stationData two_ticks) (alerts two_ticks) ''any alerts?'')"
    by (simp add: two_ticks_402 toFixed1_examples)
  have "\<lparr>alert_id = 1700000000000, alert_station = ''SIF-402'', alert_type = Current,
       message = ''Current anomaly detected: 14.4A'', timestamp = ''10:00:00 AM''\<rparr>
        \<in> set (alerts two_ticks)"
    by (simp add: alerts_two_ticks)
  with asked have "sublist (message \<lparr>alert_id = 1700000000000, alert_station = ''SIF-402'',
       alert_type = Current, message = ''Current anomaly detected: 14.4A'',
       timestamp = ''10:00:00 AM''\<rparr>)
        (prompt (stationData two_ticks) (alerts two_ticks) ''any alerts?'')"
    by blast
  then have c5: "sublist ''Current anomaly detected: 14.4A''
        (prompt (stationData two_ticks) (alerts two_ticks) ''any alerts?'')"
    by simp
  from asked have c6: "sublist ''User question: any alerts?''
        (prompt (stationData two_ticks) (alerts two_ticks) ''any alerts?'')"
    by simp
  from calm have c7: "sublist ''Active alerts: None'' (prompt initial_stationData [] ''any alerts?'')"
    by blast
  from trim_blank c1 guard c2 agree c3 two_ticks_402(1) c4 c5 c6 c7 prompt_initial
  show ?thesis by blast
qed

subsection \<open>C3: classification of a reading\<close>

text \<open>
  Claim C3 says that the status follows the specification's \<open>classify\<close> for every
  threshold configuration. The simulator takes no configuration: after four rising ticks
  SIF-405 reads 224.6 V and 15.5 A and is given the status \<open>Warning\<close>, which under a
  configuration with the voltage range 210 to 230 would be \<open>Normal\<close>.
\<close>

theorem classification_ignores_configuration:
  "voltage (reading_of (run breach initial) ''SIF-405'') = 224.6
   \<and> current (reading_of (run breach initial) ''SIF-405'') = 15.5
   \<and> status (reading_of (run breach initial) ''SIF-405'')
       \<noteq> classify_spec (voltage (reading_of (run breach initial) ''SIF-405''))
            (current (reading_of (run breach initial) ''SIF-405'')) wide_thresholds"
  by (simp add: breach_voltage breach_current breach_status classify_spec_def wide_thresholds_def)

text \<open>
  Claim C3 as amended: for every reading, the status a station's update assigns is the
  specification's \<open>classify\<close> of the new voltage and current under the default
  configuration (216 to 224 V, 14.5 to 15.8 A), whatever configuration may be set
  elsewhere; the update queues at most one alert, for its own station, and the alert is a
  voltage alert whenever the voltage is out of range, also when the current is too.
\<close>

theorem classification_fixed_bounds:
  "status (fst (update_station als e k st)) =
     classify_spec (voltage (fst (update_station als e k st)))
       (current (fst (update_station als e k st))) default_thresholds
   \<and> length (snd (update_station als e k st)) \<le> 1
   \<and> (\<forall>a \<in> set (snd (update_station als e k st)).
        alert_station a = k \<and>
        alert_type a =
          (if voltage (fst (update_station als e k st)) < 216
             \<or> voltage (fst (update_station als e k st)) > 224
           then Voltage else Current))"
proof (intro conjI ballI)
  show "status (fst (update_station als e k st)) =
     classify_spec (voltage (fst (update_station als e k st)))
       (current (fst (update_station als e k st))) default_thresholds"
    by (simp add: update_station_status update_station_voltage update_station_current
        classify_spec_def default_thresholds_def)
  show "length (snd (update_station als e k st)) \<le> 1"
    by (rule update_station_alerts_length)
next
  fix a assume "a \<in> set (snd (update_station als e k st))"
  then show "alert_station a = k"
    and "alert_type a =
          (if voltage (fst (update_station als e k st)) < 216
             \<or> voltage (fst (update_station als e k st)) > 224
           then Voltage else Current)"
    using update_station_alert_fresh [of a als e k st] update_station_alert_type [of a als e k st]
    by (simp_all add: update_station_voltage)
qed

text \<open>
  The amended claim at a reading with both measurements out of range: one alert, of type
  voltage.
\<close>

theorem classification_fixed_bounds_witness:
  "snd (update_station [] (steady ''SIF-405'') ''SIF-405'' both_out) =
     [\<lparr>alert_id = 1700000000000, alert_station = ''SIF-405'', alert_type = Voltage,
       message = ''Voltage anomaly detected: 224.6V'', timestamp = ''10:00:00 AM''\<rparr>]
   \<and> voltage (fst (update_station [] (steady ''SIF-405'') ''SIF-405'' both_out)) = 224.6
   \<and> current (fst (update_station [] (steady ''SIF-405'') ''SIF-405'' both_out)) = 15.9
   \<and> status (fst (update_station [] (steady ''SIF-405'') ''SIF-405'' both_out)) = Warning
   \<and> classify_spec 224.6 15.9 default_thresholds = Warning"
proof -
  have new: "snd (update_station [] (steady ''SIF-405'') ''SIF-405'' both_out) =
     [\<lparr>alert_id = 1700000000000, alert_station = ''SIF-405'', alert_type = Voltage,
       message = ''Voltage anomaly detected: 224.6V'', timestamp = ''10:00:00 AM''\<rparr>]"
    by (simp add: update_station_def both_out_def steady_def at_clock_def alertExists_def
        Let_def toFixed1_def show_nat.simps digit_def)
  have v: "voltage (fst (update_station [] (steady ''SIF-405'') ''SIF-405'' both_out)) = 224.6"
    and c: "current (fst (update_station [] (steady ''SIF-405'') ''SIF-405'' both_out)) = 15.9"
    by (simp_all add: update_station_voltage update_station_current next_voltage_def
        next_current_def both_out_def steady_def at_clock_def)
  from classification_fixed_bounds [of "[]" "steady ''SIF-405''" "''SIF-405''" both_out] new v c
  show ?thesis by (simp add: classify_spec_def default_thresholds_def)
qed

subsection \<open>C4: one alert per station and kind\<close>

text \<open>
  Claim C4: in every state reachable from the initial one, no two alerts share station
  and kind; and after any further tick, a station whose status is \<open>Warning\<close> has exactly
  one alert of the kind that its reading breaches (voltage first), whether this tick
  appended it or an earlier one did.
\<close>

theorem alerts_unique_per_station_and_kind:
  "distinct (map alert_key (alerts (run es initial)))
   \<and> (\<forall>(k, st) \<in> set (stationData (tick e (run es initial))).
        status st = Warning \<longrightarrow>
        length (filter (\<lambda>a. alert_key a =
                  (k, if voltage st < 216 \<or> voltage st > 224 then Voltage else Current))
                (alerts (tick e (run es initial)))) = 1)"
proof (intro conjI)
  have inv: "distinct (map alert_key (alerts (run es' initial)))" for es'
    by (rule run_alerts_distinct) (simp_all add: initial_def initial_stationData_def)
  show "distinct (map alert_key (alerts (run es initial)))" by (rule inv)
  define s where "s = run es initial"
  have after: "distinct (map alert_key (alerts (tick e s)))"
    using inv [of "es @ [e]"] by (simp add: run_append s_def)
  have "length (filter (\<lambda>a. alert_key a =
                  (k, if voltage st' < 216 \<or> voltage st' > 224 then Voltage else Current))
                (alerts (tick e s))) = 1"
    if "(k, st') \<in> set (stationData (tick e s))" and "status st' = Warning" for k st'
  proof -
    from that(1) obtain st where st: "(k, st) \<in> set (stationData s)"
      "st' = fst (update_station (alerts s) (e k) k st)"
      by (auto simp: set_stationData_tick)
    from warning_has_alert [OF st(1), of e] that(2) st(2)
    obtain a where a: "a \<in> set (alerts (tick e s))"
      "alert_key a = (k, if voltage st' < 216 \<or> voltage st' > 224 then Voltage else Current)"
      by (auto simp: update_station_voltage)
    from distinct_map_count_one [OF after a(1)] a(2) show ?thesis by simp
  qed
  then show "\<forall>(k, st) \<in> set (stationData (tick e (run es initial))).
        status st = Warning \<longrightarrow>
        length (filter (\<lambda>a. alert_key a =
                  (k, if voltage st < 216 \<or> voltage st > 224 then Voltage else Current))
                (alerts (tick e (run es initial)))) = 1"
    unfolding s_def by blast
qed

text \<open>
  Claim C4 where SIF-405 has breached at 224.6 V and the next tick finds it at 225 V: the
  second tick out of range leaves exactly one voltage alert for it.
\<close>

theorem alerts_unique_per_station_and_kind_witness:
  "(''SIF-405'', reading_of (tick rising (run breach initial)) ''SIF-405'')
      \<in> set (stationData (tick rising (run breach initial)))
   \<and> status (reading_of (tick rising (run breach initial)) ''SIF-405'') = Warning
   \<and> voltage (reading_of (run breach initial) ''SIF-405'') = 224.6
   \<and> voltage (reading_of (tick rising (run breach initial)) ''SIF-405'') = 225
   \<and> length (filter (\<lambda>a. alert_key a = (''SIF-405'', Voltage))
        (alerts (tick rising (run breach initial)))) = 1"
proof -
  have mem: "(''SIF-405'', reading_of (tick rising (run breach initial)) ''SIF-405'')
      \<in> set (stationData (tick rising (run breach initial)))"
    by (rule reading_of_mem) (simp add: keys_tick keys_breach)
  have v: "voltage (reading_of (tick rising (run breach initial)) ''SIF-405'') = 225"
    by (simp add: voltage_tick keys_breach breach_voltage next_voltage_def rising_def at_clock_def)
  have w: "status (reading_of (tick rising (run breach initial)) ''SIF-405'') = Warning"
    by (simp add: status_tick keys_breach v)
  from alerts_unique_per_station_and_kind [of breach rising] mem w v breach_voltage
  show ?thesis by auto
qed

subsection \<open>C5: the bounded random walk\<close>

text \<open>
  Claim C5: after every tick, from any state and with any results of \<open>Math.random()\<close>,
  every station has a voltage between 215 and 225 and a current between 14 and 16. Each
  station of the state moves to the clamped sum of its old value and a perturbation, which
  lies in \<open>[-1, 1)\<close> for the voltage and in \<open>[-0.25, 0.25)\<close> for the current when
  \<open>Math.random()\<close> returns a number in \<open>[0, 1)\<close>.
\<close>

theorem tick_keeps_readings_in_range:
  "(\<forall>(k, st) \<in> set (stationData (tick e s)).
      215 \<le> voltage st \<and> voltage st \<le> 225 \<and> 14 \<le> current st \<and> current st \<le> 16)
   \<and> (\<forall>k \<in> set (map fst (stationData s)).
        voltage (reading_of (tick e s) k) =
          max 215 (min 225 (voltage (reading_of s k) + (random_v (e k) - 0.5) * 2))
        \<and> current (reading_of (tick e s) k) =
          max 14 (min 16 (current (reading_of s k) + (random_c (e k) - 0.5) * 0.5))
        \<and> (0 \<le> random_v (e k) \<and> random_v (e k) < 1 \<longrightarrow>
             - 1 \<le> (random_v (e k) - 0.5) * 2 \<and> (random_v (e k) - 0.5) * 2 < 1)
        \<and> (0 \<le> random_c (e k) \<and> random_c (e k) < 1 \<longrightarrow>
             - 0.25 \<le> (random_c (e k) - 0.5) * 0.5 \<and> (random_c (e k) - 0.5) * 0.5 < 0.25))"
proof -
  have "215 \<le> voltage st' \<and> voltage st' \<le> 225 \<and> 14 \<le> current st' \<and> current st' \<le> 16"
    if "(k, st') \<in> set (stationData (tick e s))" for k st'
  proof -
    from that obtain st where "st' = fst (update_station (alerts s) (e k) k st)"
      by (auto simp: set_stationData_tick)
    then show ?thesis
      using next_voltage_bounds [of "e k" st] next_current_bounds [of "e k" st]
      by (simp add: update_station_voltage update_station_current)
  qed
  then have bounds: "\<forall>(k, st) \<in> set (stationData (tick e s)).
      215 \<le> voltage st \<and> voltage st \<le> 225 \<and> 14 \<le> current st \<and> current st \<le> 16"
    by blast
  have walk_v: "voltage (reading_of (tick e s) k) =
          max 215 (min 225 (voltage (reading_of s k) + (random_v (e k) - 0.5) * 2))"
    if "k \<in> set (map fst (stationData s))" for k
    by (simp add: voltage_tick [OF that] next_voltage_def)
  have walk_c: "current (reading_of (tick e s) k) =
          max 14 (min 16 (current (reading_of s k) + (random_c (e k) - 0.5) * 0.5))"
    if "k \<in> set (map fst (stationData s))" for k
    by (simp add: current_tick [OF that] next_current_def)
  have step_v: "- 1 \<le> (random_v (e k) - 0.5) * 2 \<and> (random_v (e k) - 0.5) * 2 < 1"
    if "0 \<le> random_v (e k) \<and> random_v (e k) < 1" for k
    using that by simp
  have step_c: "- 0.25 \<le> (random_c (e k) - 0.5) * 0.5 \<and> (random_c (e k) - 0.5) * 0.5 < 0.25"
    if "0 \<le> random_c (e k) \<and> random_c (e k) < 1" for k
    using that by simp
  from bounds walk_v walk_c step_v step_c show ?thesis by blast
qed

text \<open>
  Claim C5 at the tick that would take SIF-405 from 224.6 V to 225.5 V: the reading is
  clamped to 225 V.
\<close>

theorem tick_keeps_readings_in_range_witness:
  "(''SIF-405'', reading_of (tick rising (run breach initial)) ''SIF-405'')
      \<in> set (stationData (tick rising (run breach initial)))
   \<and> ''SIF-405'' \<in> set (map fst (stationData (run breach initial)))
   \<and> 0 \<le> random_v (rising ''SIF-405'') \<and> random_v (rising ''SIF-405'') < 1
   \<and> 0 \<le> random_c (rising ''SIF-405'') \<and> random_c (rising ''SIF-405'') < 1
   \<and> (random_v (rising ''SIF-405'') - 0.5) * 2 = 0.9
   \<and> voltage (reading_of (run breach initial) ''SIF-405'') = 224.6
   \<and> voltage (reading_of (tick rising (run breach initial)) ''SIF-405'') = 225
   \<and> 14 \<le> current (reading_of (tick rising (run breach initial)) ''SIF-405'')
   \<and> current (reading_of (tick rising (run breach initial)) ''SIF-405'') \<le> 16"
proof -
  have mem: "(''SIF-405'', reading_of (tick rising (run breach initial)) ''SIF-405'')
      \<in> set (stationData (tick rising (run breach initial)))"
    by (rule reading_of_mem) (simp add: keys_tick keys_breach)
  have k: "''SIF-405'' \<in> set (map fst (stationData (run breach initial)))"
    by (simp add: keys_breach)
  have r: "random_v (rising ''SIF-405'') = 0.95" "random_c (rising ''SIF-405'') = 0.5"
    by (simp_all add: rising_def at_clock_def)
  from tick_keeps_readings_in_range [of rising "run breach initial"] mem k
  have "14 \<le> current (reading_of (tick rising (run breach initial)) ''SIF-405'')
      \<and> current (reading_of (tick rising (run breach initial)) ''SIF-405'') \<le> 16"
    and "voltage (reading_of (tick rising (run breach initial)) ''SIF-405'') =
          max 215 (min 225 (voltage (reading_of (run breach initial) ''SIF-405'')
            + (random_v (rising ''SIF-405'') - 0.5) * 2))"
    by blast+
  with mem k r breach_voltage show ?thesis by simp
qed

subsection \<open>C6: the trend buffer\<close>

text \<open>
  Claim C6: after \<open>n\<close> ticks from the initial state, one trend point has been published
  per tick for every station of the fleet, and the station's trend buffer is that sequence
  without its first \<open>n - 20\<close> points: the most recent 20 in the order of publication,
  the oldest evicted first, and never more than 20.
\<close>

theorem trend_is_window_of_last_20:
  assumes "k \<in> fst ` set (stationData initial)"
  shows "\<exists>st. map_of (stationData (run es initial)) k = Some st
           \<and> length (published k es initial) = length es
           \<and> trend st = drop (length es - 20) (published k es initial)
           \<and> length (trend st) = min 20 (length es)"
proof -
  from assms obtain st0 where st0: "map_of (stationData initial) k = Some st0"
    by (metis map_of_eq_None_iff not_Some_eq)
  then have "(k, st0) \<in> set (stationData initial)" by (rule map_of_SomeD)
  then have empty: "trend st0 = []"
    by (auto simp: initial_def initial_stationData_def)
  from run_trend [OF st0, of es] empty obtain st where
    st: "map_of (stationData (run es initial)) k = Some st"
      "trend st = slice_last 20 (published k es initial)"
    by auto
  have len: "length (published k es initial) = length es"
    by (rule length_published [OF assms])
  have "trend st = drop (length es - 20) (published k es initial)"
    by (simp add: st(2) slice_last_def len)
  moreover from this have "length (trend st) = min 20 (length es)"
    by (simp add: len)
  ultimately show ?thesis using st(1) len by blast
qed

text \<open>
  Claim C6 after 25 ticks that raise the voltage of SIF-401 by 0.1 V each: the points
  published read 220.1 V to 222.5 V, and the buffer holds the 20 from 220.6 V to 222.5 V,
  in this order.
\<close>

theorem trend_is_window_of_last_20_witness:
  "''SIF-401'' \<in> fst ` set (stationData initial)
   \<and> length drift25 = 25
   \<and> map tp_voltage (published ''SIF-401'' drift25 initial) =
       [220.1, 220.2, 220.3, 220.4, 220.5, 220.6, 220.7, 220.8, 220.9, 221.0,
        221.1, 221.2, 221.3, 221.4, 221.5, 221.6, 221.7, 221.8, 221.9, 222.0,
        222.1, 222.2, 222.3, 222.4, 222.5]
   \<and> map tp_voltage (trend (reading_of (run drift25 initial) ''SIF-401'')) =
       [220.6, 220.7, 220.8, 220.9, 221.0,
        221.1, 221.2, 221.3, 221.4, 221.5, 221.6, 221.7, 221.8, 221.9, 222.0,
        222.1, 222.2, 222.3, 222.4, 222.5]
   \<and> length (trend (reading_of (run drift25 initial) ''SIF-401'')) = 20"
proof -
  have k: "''SIF-401'' \<in> fst ` set (stationData initial)"
    by (simp add: initial_def initial_stationData_def)
  have n: "length drift25 = 25" by (simp add: drift25_def)
  from trend_is_window_of_last_20 [OF k, of drift25]
  obtain st where st: "map_of (stationData (run drift25 initial)) ''SIF-401'' = Some st"
    "trend st = drop (length drift25 - 20) (published ''SIF-401'' drift25 initial)"
    "length (trend st) = min 20 (length drift25)"
    by blast
  from st(2) have "map tp_voltage (trend st) =
      drop 5 (map tp_voltage (published ''SIF-401'' drift25 initial))"
    by (simp add: n drop_map)
  with st(1,3) k n show ?thesis
    by (simp add: reading_of_def drift25_voltages)
qed

subsection \<open>C7: alert identifiers\<close>

text \<open>
  Claim C7 says that a later alert has a strictly greater identifier. The identifier is
  \<open>Date.now()\<close>, and the updates of one tick run within the same millisecond: in the
  second of two ticks that drive the current of SIF-402 down and that of SIF-405 up, both
  stations breach, and their two alerts get the same identifier.
\<close>

theorem alert_ids_collide:
  "map alert_id (alerts (run [currents_apart, currents_apart] initial))
     = [1700000000000, 1700000000000]
   \<and> map alert_station (alerts (run [currents_apart, currents_apart] initial))
     = [''SIF-402'', ''SIF-405'']"
  by (simp add: initial_def initial_stationData_def tick_def update_station_def
      alertExists_def slice_last_def Let_def at_clock_def currents_apart_def)

subsection \<open>C8: rejected threshold updates\<close>

text \<open>
  Claim C8: when the thresholds the dashboard submits have \<open>voltage_min >= voltage_max\<close>
  or \<open>current_min >= current_max\<close>, the backend's configuration is unchanged, the
  dashboard's \<open>thresholds\<close> are unchanged, and the only change to the dashboard is the
  error message appended to the chat.
\<close>

theorem inverted_thresholds_rejected:
  assumes "voltage_min (tempThresholds ui) \<ge> voltage_max (tempThresholds ui)
           \<or> current_min (tempThresholds ui) \<ge> current_max (tempThresholds ui)"
  shows "fst (apply_thresholds msg num (cfg, ui)) = cfg
       \<and> thresholds (snd (apply_thresholds msg num (cfg, ui))) = thresholds ui
       \<and> snd (apply_thresholds msg num (cfg, ui)) =
           ui\<lparr>chatMessages := chatMessages ui @
               [\<lparr>role = Assistant, content = cross_mark @ '' Error updating thresholds: '' @ msg\<rparr>]\<rparr>"
  using assms by (auto simp: apply_thresholds_def put_thresholds_def updateThresholds_def)

text \<open>
  Claim C8 for the update \<open>{voltage_min: 230, voltage_max: 220}\<close> against the default
  configuration.
\<close>

theorem inverted_thresholds_rejected_witness:
  "voltage_min (tempThresholds dashboard0) = 230 \<and> voltage_max (tempThresholds dashboard0) = 220
   \<and> fst (apply_thresholds ''voltage_min must be less than voltage_max'' toFixed1
             (default_thresholds, dashboard0)) = default_thresholds
   \<and> thresholds (snd (apply_thresholds ''voltage_min must be less than voltage_max'' toFixed1
             (default_thresholds, dashboard0))) = default_thresholds
   \<and> chatMessages (snd (apply_thresholds ''voltage_min must be less than voltage_max'' toFixed1
             (default_thresholds, dashboard0))) =
       [\<lparr>role = Assistant,
         content = cross_mark @ '' Error updating thresholds: voltage_min must be less than voltage_max''\<rparr>]"
proof -
  have t: "voltage_min (tempThresholds dashboard0) = 230 \<and> voltage_max (tempThresholds dashboard0) = 220"
    by (simp add: dashboard0_def inverted_thresholds_def)
  then have h: "voltage_min (tempThresholds dashboard0) \<ge> voltage_max (tempThresholds dashboard0)
           \<or> current_min (tempThresholds dashboard0) \<ge> current_max (tempThresholds dashboard0)"
    by simp
  from inverted_thresholds_rejected [OF h, of "''voltage_min must be less than voltage_max''" toFixed1 default_thresholds] t
  show ?thesis by (simp add: dashboard0_def)
qed

subsection \<open>C9: status is recomputed, alerts stay\<close>

text \<open>
  Claim C9: after a tick, the status of every station is determined by its new voltage
  and current alone, \<open>Normal\<close> exactly when both are within the simulator's bounds; the
  alerts of a state are a prefix of the alerts of every later state, so none is ever
  removed; and there is a reachable state in which a station has status \<open>Normal\<close>
  while an alert for it is still in the list.
\<close>

theorem status_follows_reading_alerts_stay:
  "(\<forall>(k, st) \<in> set (stationData (tick e s)).
      status st =
        (if voltage st < 216 \<or> voltage st > 224 \<or> current st < 14.5 \<or> current st > 15.8
         then Warning else Normal))
   \<and> prefix (alerts s) (alerts (run es s))
   \<and> (\<exists>es' k a. k \<in> set (map fst (stationData initial))
         \<and> status (reading_of (run es' initial) k) = Normal
         \<and> a \<in> set (alerts (run es' initial)) \<and> alert_station a = k)"
proof (intro conjI)
  have "status st' =
        (if voltage st' < 216 \<or> voltage st' > 224 \<or> current st' < 14.5 \<or> current st' > 15.8
         then Warning else Normal)"
    if "(k, st') \<in> set (stationData (tick e s))" for k st'
  proof -
    from that obtain st where "st' = fst (update_station (alerts s) (e k) k st)"
      by (auto simp: set_stationData_tick)
    then show ?thesis
      by (simp add: update_station_status update_station_voltage update_station_current)
  qed
  then show "\<forall>(k, st) \<in> set (stationData (tick e s)).
      status st =
        (if voltage st < 216 \<or> voltage st > 224 \<or> current st < 14.5 \<or> current st > 15.8
         then Warning else Normal)"
    by blast
  show "prefix (alerts s) (alerts (run es s))" by (rule alerts_run_prefix)
  from breach_alert obtain a where a: "a \<in> set (alerts (run breach initial))"
    "alert_key a = (''SIF-405'', Voltage)" by blast
  have eq: "run breach_and_recover initial = run [falling] (run breach initial)"
    by (simp add: breach_and_recover_def breach_def)
  have "prefix (alerts (run breach initial)) (alerts (run breach_and_recover initial))"
    unfolding eq by (rule alerts_run_prefix)
  with a(1) have "a \<in> set (alerts (run breach_and_recover initial))"
    using set_mono_prefix by blast
  moreover from a(2) have "alert_station a = ''SIF-405''" by (simp add: alert_key_def)
  moreover have "''SIF-405'' \<in> set (map fst (stationData initial))"
    by (simp add: keys_initial)
  ultimately show "\<exists>es' k a. k \<in> set (map fst (stationData initial))
         \<and> status (reading_of (run es' initial) k) = Normal
         \<and> a \<in> set (alerts (run es' initial)) \<and> alert_station a = k"
    using recover_status by blast
qed

text \<open>
  Claim C9 at the tick that brings SIF-405 back from 224.6 V to 223.7 V.
\<close>

theorem status_follows_reading_alerts_stay_witness:
  "(''SIF-405'', reading_of (tick falling (run breach initial)) ''SIF-405'')
      \<in> set (stationData (tick falling (run breach initial)))
   \<and> status (reading_of (run breach initial) ''SIF-405'') = Warning
   \<and> voltage (reading_of (tick falling (run breach initial)) ''SIF-405'') = 223.7
   \<and> current (reading_of (tick falling (run breach initial)) ''SIF-405'') = 15.5
   \<and> status (reading_of (tick falling (run breach initial)) ''SIF-405'') = Normal
   \<and> prefix (alerts (run breach initial)) (alerts (run [falling] (run breach initial)))"
proof -
  have mem: "(''SIF-405'', reading_of (tick falling (run breach initial)) ''SIF-405'')
      \<in> set (stationData (tick falling (run breach initial)))"
    by (rule reading_of_mem) (simp add: keys_tick keys_breach)
  have v: "voltage (reading_of (tick falling (run breach initial)) ''SIF-405'') = 223.7"
    by (simp add: voltage_tick keys_breach breach_voltage next_voltage_def falling_def at_clock_def)
  have c: "current (reading_of (tick falling (run breach initial)) ''SIF-405'') = 15.5"
    by (simp add: current_tick keys_breach breach_current next_current_def falling_def at_clock_def)
  from status_follows_reading_alerts_stay [of falling "run breach initial" "[falling]"] mem
  have "status (reading_of (tick falling (run breach initial)) ''SIF-405'') =
        (if voltage (reading_of (tick falling (run breach initial)) ''SIF-405'') < 216
          \<or> voltage (reading_of (tick falling (run breach initial)) ''SIF-405'') > 224
          \<or> current (reading_of (tick falling (run breach initial)) ''SIF-405'') < 14.5
          \<or> current (reading_of (tick falling (run breach initial)) ''SIF-405'') > 15.8
         then Warning else Normal)"
    and "prefix (alerts (run breach initial)) (alerts (run [falling] (run breach initial)))"
    by blast+
  with mem v c breach_status show ?thesis by simp
qed

subsection \<open>C10: the initial state\<close>

text \<open>
  Claim C10: before the first tick the fleet is SIF-401, SIF-402, SIF-405 and SIF-407, in
  this order, with voltages 220, 218, 221 and 219, currents 15.2, 14.8, 15.5 and 15.1, all
  within the simulator's bounds, every status \<open>Normal\<close>, every trend buffer empty, and
  no alert.
\<close>

theorem initial_fleet:
  "map fst (stationData initial) = [''SIF-401'', ''SIF-402'', ''SIF-405'', ''SIF-407'']
   \<and> map (voltage \<circ> snd) (stationData initial) = [220, 218, 221, 219]
   \<and> map (current \<circ> snd) (stationData initial) = [15.2, 14.8, 15.5, 15.1]
   \<and> map (status \<circ> snd) (stationData initial) = [Normal, Normal, Normal, Normal]
   \<and> map (trend \<circ> snd) (stationData initial) = [[], [], [], []]
   \<and> alerts initial = []
   \<and> list_all (\<lambda>(k, st). 216 \<le> voltage st \<and> voltage st \<le> 224
                        \<and> 14.5 \<le> current st \<and> current st \<le> 15.8) (stationData initial)
   \<and> run [] initial = initial"
  by (simp add: initial_def initial_stationData_def)

end
